theory Spec2Isabelle
  imports Main "HOL-Library.Word"
begin

section \<open>The wycc runtime: boxed values, conversions, initializer chain\<close>

text \<open>
  The development embeds the two translation units
  \<^verbatim>\<open>modules/wycc/clib/wycc__toUnsignedByte.c\<close> and
  \<^verbatim>\<open>modules/wycc/clib/wycc__toUnsignedInt.c\<close>.  Both include
  \<^verbatim>\<open>wycc_lib.h\<close>, \<^verbatim>\<open>common.h\<close> and \<^verbatim>\<open>box.h\<close>; what they take from these headers
  (the tag constants, the macros \<^verbatim>\<open>WY_OBJ_SANE\<close> and \<^verbatim>\<open>WY_PANIC\<close>, the
  constructors \<^verbatim>\<open>wycc_box_byte\<close> and \<^verbatim>\<open>wycc_box_long\<close>, the registry and the head of
  the initializer chain) is modelled from the specification and marked as such.
\<close>

subsection \<open>Data\<close>

text \<open>
  Modelled from the spec: the type tags of \<^verbatim>\<open>wycc_lib.h\<close>.  The two units name
  \<^verbatim>\<open>Wy_Int\<close>, \<^verbatim>\<open>Wy_Char\<close> and \<^verbatim>\<open>Wy_Byte\<close>; \<open>Wy_Other k\<close> stands for the
  \<open>k\<close>-th of the remaining tags of the closed set (booleans, records, ...).
\<close>

datatype wy_type = Wy_Int | Wy_Char | Wy_Byte | Wy_Other nat

text \<open>
  \<^verbatim>\<open>wycc_obj\<close>: the fields the code reads are \<^verbatim>\<open>typ\<close> and \<^verbatim>\<open>ptr\<close>.  A scalar is
  kept in \<^verbatim>\<open>ptr\<close> itself (the field \<^verbatim>\<open>typ\<close> is \<open>typ_tag\<close> here), read back with \<^verbatim>\<open>(long) itm->ptr\<close>; pointer and
  \<^verbatim>\<open>long\<close> are 64 bits wide (LP64), the cast keeps the bit pattern.
\<close>

record wycc_obj =
  typ_tag :: wy_type
  ptr :: "64 word"

text \<open>A \<^verbatim>\<open>wycc_obj*\<close>: \<open>0\<close> is \<^verbatim>\<open>NULL\<close>, \<open>p > 0\<close> is the \<open>p\<close>-th allocated object.\<close>

type_synonym handle = nat

text \<open>What is written to \<^verbatim>\<open>stderr\<close>, one entry per call, format string and argument.\<close>

datatype diag =
    Insane_object string
  | Panic string wy_type
  | Fprintf string

text \<open>
  How the process ends when it does not return: \<open>Exit st\<close> is \<^verbatim>\<open>exit(st)\<close> with
  the \<^verbatim>\<open>int\<close> argument \<open>st\<close>; \<open>Insane\<close> is the abort of the sanity check;
  \<open>Segfault\<close> is the fault of a read through a handle that is null or designates no
  object.
\<close>

datatype fatal = Insane | Exit "32 word" | Segfault

text \<open>Translation units of the library; \<open>Sibling k\<close> is any unit other than the two embedded.\<close>

datatype module = ToUnsignedByte | ToUnsignedInt | Sibling nat

text \<open>Addresses of functions of type \<^verbatim>\<open>void (*)()\<close>: the static callbacks of a unit.\<close>

datatype callback = Initor_b module | Initor_d module

text \<open>Addresses of native routines, of type \<^verbatim>\<open>wycc_obj* (*)(wycc_obj*)\<close>.\<close>

datatype routine = Addr_wycc__toUnsignedByte | Addr_wycc__toUnsignedInt | Addr_sibling nat

text \<open>
  \<^verbatim>\<open>wycc_initor\<close>: the fields the constructors write.  A pointer to the record of a unit
  is the unit's name; \<open>None\<close> is \<^verbatim>\<open>NULL\<close>.
\<close>

record wycc_initor =
  nxt :: "module option"
  functionr :: "callback option"
  functionq :: "callback option"

text \<open>
  The state of the process: the allocated objects, the diagnostic stream, and the
  process-wide variables \<^verbatim>\<open>wycc_init_chain\<close>, the static \<^verbatim>\<open>__initor_c\<close> of each unit
  and the routine registry.
\<close>

record runtime =
  heap :: "wycc_obj list"
  stderr :: "diag list"
  wycc_init_chain :: "module option"
  initors :: "module \<Rightarrow> wycc_initor"
  registry :: "(string \<times> string) \<rightharpoonup> routine"

type_synonym 'a result = "(fatal + 'a) \<times> runtime"

definition NULL :: handle where
  "NULL = 0"

definition obj_at :: "runtime \<Rightarrow> handle \<Rightarrow> bool" where
  "obj_at s p \<longleftrightarrow> p \<noteq> NULL \<and> p \<le> length (heap s)"

definition deref :: "runtime \<Rightarrow> handle \<Rightarrow> wycc_obj" where
  "deref s p = heap s ! (p - 1)"

text \<open>
  The reads \<^verbatim>\<open>itm->typ\<close> and \<^verbatim>\<open>itm->ptr\<close> as the machine performs them: through
  a handle that is null or designates no object the read faults and the process ends;
  otherwise it yields the field.  (\<open>deref\<close> above only names an object in statements.)
\<close>

definition read_typ :: "handle \<Rightarrow> runtime \<Rightarrow> wy_type result" where
  "read_typ itm s =
     (if itm \<noteq> NULL \<and> itm \<le> length (heap s) then (Inr (typ_tag (heap s ! (itm - 1))), s)
      else (Inl Segfault, s))"

definition read_ptr :: "handle \<Rightarrow> runtime \<Rightarrow> (64 word) result" where
  "read_ptr itm s =
     (if itm \<noteq> NULL \<and> itm \<le> length (heap s) then (Inr (ptr (heap s ! (itm - 1))), s)
      else (Inl Segfault, s))"

text \<open>
  Sequencing of statements: the second runs on the value and the state the first leaves,
  and does not run at all when the first ended the process.
\<close>

definition then_do :: "'a result \<Rightarrow> ('a \<Rightarrow> runtime \<Rightarrow> 'b result) \<Rightarrow> 'b result" where
  "then_do r k = (case r of (Inl f, s) \<Rightarrow> (Inl f, s) | (Inr x, s) \<Rightarrow> k x s)"

text \<open>
  Modelled from the spec: the process before any constructor has run.  Statics are
  zero-filled, the chain is empty and nothing is registered yet.
\<close>

definition process_start :: runtime where
  "process_start =
     \<lparr>heap = [], stderr = [], wycc_init_chain = None,
      initors = (\<lambda>m. \<lparr>nxt = None, functionr = None, functionq = None\<rparr>),
      registry = Map.empty\<rparr>"

subsection \<open>Collaborators from the headers\<close>

definition newline :: char where
  "newline = CHR 0x0A"

text \<open>
  Modelled from the spec: the macro \<^verbatim>\<open>WY_OBJ_SANE\<close> of \<^verbatim>\<open>common.h\<close> (SanityCheck):
  fails fatally if the handle is null or otherwise structurally invalid (here: it
  designates no allocated object), citing the caller's label in the diagnostic.
\<close>

definition WY_OBJ_SANE :: "handle \<Rightarrow> string \<Rightarrow> runtime \<Rightarrow> unit result" where
  "WY_OBJ_SANE itm label s =
     (if itm = NULL \<or> length (heap s) < itm
      then (Inl Insane, s\<lparr>stderr := stderr s @ [Insane_object label]\<rparr>)
      else (Inr (), s))"

text \<open>
  Modelled from the spec: the macro \<^verbatim>\<open>WY_PANIC\<close> of \<^verbatim>\<open>common.h\<close> reports the
  diagnostic; the \<^verbatim>\<open>exit(-3)\<close> that ends the process is the statement after it.
\<close>

definition WY_PANIC :: "string \<Rightarrow> wy_type \<Rightarrow> runtime \<Rightarrow> runtime" where
  "WY_PANIC fmt t s = s\<lparr>stderr := stderr s @ [Panic fmt t]\<rparr>"

definition fprintf_stderr :: "string \<Rightarrow> runtime \<Rightarrow> runtime" where
  "fprintf_stderr msg s = s\<lparr>stderr := stderr s @ [Fprintf msg]\<rparr>"

definition exit_with :: "32 word \<Rightarrow> runtime \<Rightarrow> 'a result" where
  "exit_with st s = (Inl (Exit st), s)"

text \<open>The status a parent process reads after \<^verbatim>\<open>exit(st)\<close>: the low eight bits.\<close>

definition wait_status :: "32 word \<Rightarrow> 8 word" where
  "wait_status st = ucast st"

text \<open>
  Modelled from the spec: the allocation behind the constructors of \<^verbatim>\<open>box.h\<close>
  (ValueFactory): no side effect beyond the allocation of the handle returned, which is
  never null and designates the new object.
\<close>

definition box_new :: "wy_type \<Rightarrow> 64 word \<Rightarrow> runtime \<Rightarrow> handle result" where
  "box_new t v s =
     (Inr (Suc (length (heap s))), s\<lparr>heap := heap s @ [\<lparr>typ_tag = t, ptr = v\<rparr>]\<rparr>)"

text \<open>
  Modelled from the spec: \<^verbatim>\<open>wycc_box_byte\<close> of \<^verbatim>\<open>box.h\<close> (ValueFactory, Byte): the raw
  value must satisfy \<open>0 \<le> v \<le> 255\<close>, a violation is a fatal precondition failure.
\<close>

definition wycc_box_byte :: "64 word \<Rightarrow> runtime \<Rightarrow> handle result" where
  "wycc_box_byte v s =
     (if 0 \<le>s v \<and> v \<le>s 255 then box_new Wy_Byte v s
      else exit_with (- 4) (fprintf_stderr (''precondition not satisfied'' @ [newline]) s))"

text \<open>
  Modelled from the spec: \<^verbatim>\<open>wycc_box_long\<close> of \<^verbatim>\<open>box.h\<close> (ValueFactory, Integer): no
  range restriction, the value is passed through as it is.
\<close>

definition wycc_box_long :: "64 word \<Rightarrow> runtime \<Rightarrow> handle result" where
  "wycc_box_long v s = box_new Wy_Int v s"

text \<open>
  Modelled from the spec: \<^verbatim>\<open>wycc_register_routine\<close> (NativeRegistry): inserts or
  overwrites the entry keyed by name and signature descriptor; a lookup returns the
  implementation or "not found" (\<open>None\<close>), comparing the key by equality only.
\<close>

definition wycc_register_routine :: "string \<Rightarrow> string \<Rightarrow> routine \<Rightarrow> runtime \<Rightarrow> runtime" where
  "wycc_register_routine name sig fn s = s\<lparr>registry := (registry s)((name, sig) \<mapsto> fn)\<rparr>"

text \<open>
  Modelled from the spec: the lookup of the NativeRegistry, by name and signature
  descriptor.
\<close>

definition lookup_routine :: "string \<Rightarrow> string \<Rightarrow> runtime \<Rightarrow> routine option" where
  "lookup_routine name sig s = registry s (name, sig)"

subsection \<open>The conversion routines\<close>

text \<open>\<^verbatim>\<open>wycc__toUnsignedByte\<close>: given an int, byte or char, a byte with the same value.\<close>

definition wycc__toUnsignedByte :: "handle \<Rightarrow> runtime \<Rightarrow> handle result" where
  "wycc__toUnsignedByte itm s0 =
     then_do (WY_OBJ_SANE itm ''wycc__toUnsignedByte'' s0) (\<lambda>_ s.
     then_do
       (then_do (read_typ itm s) (\<lambda>t1 s.
          if t1 = Wy_Int then read_ptr itm s
          else then_do (read_typ itm s) (\<lambda>t2 s.
            if t2 = Wy_Char then read_ptr itm s
            else then_do (read_typ itm s) (\<lambda>t3 s.
              if t3 = Wy_Byte then read_ptr itm s
              else then_do (read_typ itm s) (\<lambda>t4 s.
                exit_with (- 3)
                  (WY_PANIC (''Help needed in wycc__toUnsignedByte for type %d'' @ [newline])
                     t4 s))))))
       (\<lambda>val s.
          if val <s 0
          then exit_with (- 4) (fprintf_stderr (''precondition not satisfied'' @ [newline]) s)
          else if 255 <s val
          then exit_with (- 4) (fprintf_stderr (''precondition not satisfied'' @ [newline]) s)
          else wycc_box_byte val s))"

text \<open>
  \<^verbatim>\<open>wycc__toUnsignedInt\<close>: given an int, byte or char, an int with the same value.  The
  panic message names \<^verbatim>\<open>wycc__toUnsignedByte\<close>, as in the source.
\<close>

definition wycc__toUnsignedInt :: "handle \<Rightarrow> runtime \<Rightarrow> handle result" where
  "wycc__toUnsignedInt itm s0 =
     then_do (WY_OBJ_SANE itm ''wycc__toUnsignedInt'' s0) (\<lambda>_ s.
     then_do
       (then_do (read_typ itm s) (\<lambda>t1 s.
          if t1 = Wy_Int then read_ptr itm s
          else then_do (read_typ itm s) (\<lambda>t2 s.
            if t2 = Wy_Char then read_ptr itm s
            else then_do (read_typ itm s) (\<lambda>t3 s.
              if t3 = Wy_Byte then read_ptr itm s
              else then_do (read_typ itm s) (\<lambda>t4 s.
                exit_with (- 3)
                  (WY_PANIC (''Help needed in wycc__toUnsignedByte for type %d'' @ [newline])
                     t4 s))))))
       (\<lambda>val s. wycc_box_long val s))"

text \<open>The code behind a routine address, for the two routines embedded here.\<close>

fun routine_code :: "routine \<Rightarrow> (handle \<Rightarrow> runtime \<Rightarrow> handle result) option" where
  "routine_code Addr_wycc__toUnsignedByte = Some wycc__toUnsignedByte"
| "routine_code Addr_wycc__toUnsignedInt = Some wycc__toUnsignedInt"
| "routine_code (Addr_sibling k) = None"

subsection \<open>Registration callbacks and load-time constructors\<close>

text \<open>\<^verbatim>\<open>__initor_b\<close> and \<^verbatim>\<open>__initor_d\<close> of \<^verbatim>\<open>wycc__toUnsignedByte.c\<close>.\<close>

definition toUnsignedByte_initor_b :: "runtime \<Rightarrow> runtime" where
  "toUnsignedByte_initor_b s =
     wycc_register_routine ''toUnsignedByte'' ''[^d,v,i]'' Addr_wycc__toUnsignedByte s"

definition toUnsignedByte_initor_d :: "runtime \<Rightarrow> runtime" where
  "toUnsignedByte_initor_d s = s"

text \<open>\<^verbatim>\<open>__initor_b\<close> and \<^verbatim>\<open>__initor_d\<close> of \<^verbatim>\<open>wycc__toUnsignedInt.c\<close>.\<close>

definition toUnsignedInt_initor_b :: "runtime \<Rightarrow> runtime" where
  "toUnsignedInt_initor_b s =
     wycc_register_routine ''toUnsignedInt'' ''[^i,v,d]'' Addr_wycc__toUnsignedInt s"

definition toUnsignedInt_initor_d :: "runtime \<Rightarrow> runtime" where
  "toUnsignedInt_initor_d s = s"

text \<open>
  \<^verbatim>\<open>__initor_a\<close>, the constructor: the text is the same in both units and differs only
  in the statics it names, so it is given once, for the unit \<open>m\<close>: four assignments, to
  the three fields of the unit's \<^verbatim>\<open>__initor_c\<close> and to \<^verbatim>\<open>wycc_init_chain\<close>.
\<close>

definition set_initor_c :: "module \<Rightarrow> (wycc_initor \<Rightarrow> wycc_initor) \<Rightarrow> runtime \<Rightarrow> runtime" where
  "set_initor_c m upd s = s\<lparr>initors := (initors s)(m := upd (initors s m))\<rparr>"

definition initor_a :: "module \<Rightarrow> runtime \<Rightarrow> runtime" where
  "initor_a m s =
     (let s1 = set_initor_c m (\<lambda>r. r\<lparr>nxt := wycc_init_chain s\<rparr>) s;
          s2 = set_initor_c m (\<lambda>r. r\<lparr>functionr := Some (Initor_b m)\<rparr>) s1;
          s3 = set_initor_c m (\<lambda>r. r\<lparr>functionq := Some (Initor_d m)\<rparr>) s2
      in s3\<lparr>wycc_init_chain := Some m\<rparr>)"

text \<open>
  Modelled from the spec: load time.  The constructor of each unit of the list runs, in
  load order, before any application logic.
\<close>

fun load_units :: "module list \<Rightarrow> runtime \<Rightarrow> runtime" where
  "load_units [] s = s"
| "load_units (m # ms) s = load_units ms (initor_a m s)"

subsection \<open>The startup driver\<close>

text \<open>
  Calling a callback through its address.  The callbacks of the sibling units are not
  part of the two files; their effect is the parameter \<open>ext\<close>.
\<close>

fun run_callback :: "(callback \<Rightarrow> runtime \<Rightarrow> runtime) \<Rightarrow> callback \<Rightarrow> runtime \<Rightarrow> runtime" where
  "run_callback ext (Initor_b ToUnsignedByte) s = toUnsignedByte_initor_b s"
| "run_callback ext (Initor_d ToUnsignedByte) s = toUnsignedByte_initor_d s"
| "run_callback ext (Initor_b ToUnsignedInt) s = toUnsignedInt_initor_b s"
| "run_callback ext (Initor_d ToUnsignedInt) s = toUnsignedInt_initor_d s"
| "run_callback ext (Initor_b (Sibling k)) s = ext (Initor_b (Sibling k)) s"
| "run_callback ext (Initor_d (Sibling k)) s = ext (Initor_d (Sibling k)) s"

datatype crash = Null_call

text \<open>
  Modelled from the spec: the startup driver (InitializerChain), which is outside the
  two files.  It walks the chain from \<^verbatim>\<open>wycc_init_chain\<close> along \<^verbatim>\<open>nxt\<close> to \<^verbatim>\<open>NULL\<close>
  and invokes the register callback of each record; \<open>called\<close> lists the callbacks invoked
  so far, in order.  On a cyclic chain the walk does not return (\<open>None\<close>).
\<close>

partial_function (option) walk_register ::
  "(callback \<Rightarrow> runtime \<Rightarrow> runtime) \<Rightarrow> module option \<Rightarrow> callback list \<Rightarrow> runtime
     \<Rightarrow> (crash + callback list \<times> runtime) option" where
  "walk_register ext p called s =
     (case p of
        None \<Rightarrow> Some (Inr (called, s))
      | Some m \<Rightarrow>
          (case functionr (initors s m) of
             None \<Rightarrow> Some (Inl Null_call)
           | Some cb \<Rightarrow>
               walk_register ext (nxt (initors (run_callback ext cb s) m)) (called @ [cb])
                 (run_callback ext cb s)))"

text \<open>Modelled from the spec: the startup driver starts its walk at \<^verbatim>\<open>wycc_init_chain\<close>.\<close>

definition startup :: "(callback \<Rightarrow> runtime \<Rightarrow> runtime) \<Rightarrow> runtime
     \<Rightarrow> (crash + callback list \<times> runtime) option" where
  "startup ext s = walk_register ext (wycc_init_chain s) [] s"

text \<open>
  The records on the chain from \<open>p\<close> to \<^verbatim>\<open>NULL\<close>, head first, as a list: \<open>chain_from I p ms\<close>
  holds when following \<^verbatim>\<open>nxt\<close> from \<open>p\<close> passes through exactly \<open>ms\<close>.
\<close>

fun chain_from :: "(module \<Rightarrow> wycc_initor) \<Rightarrow> module option \<Rightarrow> module list \<Rightarrow> bool" where
  "chain_from I p [] \<longleftrightarrow> p = None"
| "chain_from I p (m # ms) \<longleftrightarrow> p = Some m \<and> chain_from I (nxt (I m)) ms"

text \<open>
  What is assumed of the callbacks of sibling units: \<open>chain_frame\<close>, they leave the chain
  and the initializer records alone; \<open>keeps_entry ext k\<close>, they do not register the key
  \<open>k\<close>.
\<close>

definition chain_frame :: "(callback \<Rightarrow> runtime \<Rightarrow> runtime) \<Rightarrow> bool" where
  "chain_frame ext \<longleftrightarrow>
     (\<forall>cb t. wycc_init_chain (ext cb t) = wycc_init_chain t \<and> initors (ext cb t) = initors t)"

definition keeps_entry :: "(callback \<Rightarrow> runtime \<Rightarrow> runtime) \<Rightarrow> string \<times> string \<Rightarrow> bool" where
  "keeps_entry ext k \<longleftrightarrow> (\<forall>cb t. registry (ext cb t) k = registry t k)"

subsection \<open>A sample heap\<close>

text \<open>
  Five boxed values: Integer 42 at handle 1, Integer 300 at handle 2, Byte 7 at handle 3,
  a value of another tag at handle 4 and Integer \<open>-5\<close> at handle 5; handle 6 designates
  nothing.
\<close>

definition scenario :: runtime where
  "scenario = process_start\<lparr>heap :=
     [\<lparr>typ_tag = Wy_Int, ptr = 42\<rparr>, \<lparr>typ_tag = Wy_Int, ptr = 300\<rparr>,
      \<lparr>typ_tag = Wy_Byte, ptr = 7\<rparr>, \<lparr>typ_tag = Wy_Other 0, ptr = 1\<rparr>,
      \<lparr>typ_tag = Wy_Int, ptr = - 5\<rparr>]\<rparr>"

section \<open>Properties\<close>

subsection \<open>The sanity check and the allocator\<close>

lemma WY_OBJ_SANE_pass: "obj_at s itm \<Longrightarrow> WY_OBJ_SANE itm l s = (Inr (), s)"
  by (auto simp: WY_OBJ_SANE_def obj_at_def)

lemma WY_OBJ_SANE_fail:
  "\<not> obj_at s itm \<Longrightarrow>
     WY_OBJ_SANE itm l s = (Inl Insane, s\<lparr>stderr := stderr s @ [Insane_object l]\<rparr>)"
  by (auto simp: WY_OBJ_SANE_def obj_at_def)

lemma read_typ_obj: "obj_at s itm \<Longrightarrow> read_typ itm s = (Inr (typ_tag (deref s itm)), s)"
  by (simp add: read_typ_def obj_at_def deref_def)

lemma read_ptr_obj: "obj_at s itm \<Longrightarrow> read_ptr itm s = (Inr (ptr (deref s itm)), s)"
  by (simp add: read_ptr_def obj_at_def deref_def)

lemma read_faults:
  "\<not> obj_at s itm \<Longrightarrow> read_typ itm s = (Inl Segfault, s)"
  "\<not> obj_at s itm \<Longrightarrow> read_ptr itm s = (Inl Segfault, s)"
  by (auto simp: read_typ_def read_ptr_def obj_at_def)

lemma then_do_simps:
  "then_do (Inl f, s) k = (Inl f, s)"
  "then_do (Inr x, s) k = k x s"
  by (simp_all add: then_do_def)

lemma box_new_fresh:
  "box_new t v s =
     (Inr (Suc (length (heap s))), s\<lparr>heap := heap s @ [\<lparr>typ_tag = t, ptr = v\<rparr>]\<rparr>)"
  by (simp add: box_new_def)

lemma deref_extend: "obj_at s p \<Longrightarrow> deref (s\<lparr>heap := heap s @ [x]\<rparr>) p = deref s p"
  by (cases p) (auto simp: deref_def obj_at_def NULL_def nth_append)

lemma obj_at_extend: "obj_at s p \<Longrightarrow> obj_at (s\<lparr>heap := heap s @ [x]\<rparr>) p"
  by (auto simp: obj_at_def)

lemma deref_new: "deref (s\<lparr>heap := heap s @ [x]\<rparr>) (Suc (length (heap s))) = x"
  by (simp add: deref_def)

lemma obj_at_new: "obj_at (s\<lparr>heap := heap s @ [x]\<rparr>) (Suc (length (heap s)))"
  by (simp add: obj_at_def NULL_def)

subsection \<open>The routines, path by path\<close>

lemma toUnsignedByte_in_range:
  assumes "obj_at s itm" "typ_tag (deref s itm) \<in> {Wy_Int, Wy_Char, Wy_Byte}"
    "0 \<le> sint (ptr (deref s itm))" "sint (ptr (deref s itm)) \<le> 255"
  shows "wycc__toUnsignedByte itm s = box_new Wy_Byte (ptr (deref s itm)) s"
  using assms
  by (auto simp: wycc__toUnsignedByte_def WY_OBJ_SANE_pass read_typ_obj read_ptr_obj
      then_do_simps wycc_box_byte_def exit_with_def word_sless_alt word_sle_eq)

lemma toUnsignedByte_out_of_range:
  assumes "obj_at s itm" "typ_tag (deref s itm) \<in> {Wy_Int, Wy_Char, Wy_Byte}"
    "\<not> (0 \<le> sint (ptr (deref s itm)) \<and> sint (ptr (deref s itm)) \<le> 255)"
  shows "wycc__toUnsignedByte itm s =
     exit_with (- 4) (fprintf_stderr (''precondition not satisfied'' @ [newline]) s)"
  using assms
  by (auto simp: wycc__toUnsignedByte_def WY_OBJ_SANE_pass read_typ_obj read_ptr_obj
      then_do_simps wycc_box_byte_def exit_with_def word_sless_alt word_sle_eq)

lemma toUnsignedByte_unsupported:
  assumes "obj_at s itm" "typ_tag (deref s itm) \<notin> {Wy_Int, Wy_Char, Wy_Byte}"
  shows "wycc__toUnsignedByte itm s =
     exit_with (- 3)
       (WY_PANIC (''Help needed in wycc__toUnsignedByte for type %d'' @ [newline])
          (typ_tag (deref s itm)) s)"
  using assms
  by (auto simp: wycc__toUnsignedByte_def WY_OBJ_SANE_pass read_typ_obj read_ptr_obj
      then_do_simps exit_with_def)

lemma toUnsignedByte_insane:
  "\<not> obj_at s itm \<Longrightarrow> wycc__toUnsignedByte itm s =
     (Inl Insane, s\<lparr>stderr := stderr s @ [Insane_object ''wycc__toUnsignedByte'']\<rparr>)"
  by (simp add: wycc__toUnsignedByte_def WY_OBJ_SANE_fail then_do_simps)

lemma toUnsignedInt_supported:
  assumes "obj_at s itm" "typ_tag (deref s itm) \<in> {Wy_Int, Wy_Char, Wy_Byte}"
  shows "wycc__toUnsignedInt itm s = box_new Wy_Int (ptr (deref s itm)) s"
  using assms
  by (auto simp: wycc__toUnsignedInt_def WY_OBJ_SANE_pass read_typ_obj read_ptr_obj
      then_do_simps wycc_box_long_def)

lemma toUnsignedInt_unsupported:
  assumes "obj_at s itm" "typ_tag (deref s itm) \<notin> {Wy_Int, Wy_Char, Wy_Byte}"
  shows "wycc__toUnsignedInt itm s =
     exit_with (- 3)
       (WY_PANIC (''Help needed in wycc__toUnsignedByte for type %d'' @ [newline])
          (typ_tag (deref s itm)) s)"
  using assms
  by (auto simp: wycc__toUnsignedInt_def WY_OBJ_SANE_pass read_typ_obj read_ptr_obj
      then_do_simps exit_with_def)

lemma toUnsignedInt_insane:
  "\<not> obj_at s itm \<Longrightarrow> wycc__toUnsignedInt itm s =
     (Inl Insane, s\<lparr>stderr := stderr s @ [Insane_object ''wycc__toUnsignedInt'']\<rparr>)"
  by (simp add: wycc__toUnsignedInt_def WY_OBJ_SANE_fail then_do_simps)

lemma scenario_objects:
  "obj_at scenario 1" "obj_at scenario 2" "obj_at scenario 3" "obj_at scenario 4"
  "obj_at scenario 5" "\<not> obj_at scenario 6" "\<not> obj_at scenario NULL"
  "deref scenario 1 = \<lparr>typ_tag = Wy_Int, ptr = 42\<rparr>"
  "deref scenario 2 = \<lparr>typ_tag = Wy_Int, ptr = 300\<rparr>"
  "deref scenario 3 = \<lparr>typ_tag = Wy_Byte, ptr = 7\<rparr>"
  "deref scenario 4 = \<lparr>typ_tag = Wy_Other 0, ptr = 1\<rparr>"
  "deref scenario 5 = \<lparr>typ_tag = Wy_Int, ptr = - 5\<rparr>"
  "length (heap scenario) = 5"
  by (simp_all add: scenario_def process_start_def obj_at_def deref_def NULL_def)

subsection \<open>Properties of the conversions\<close>

text \<open>
  C1.  Let \<open>itm\<close> designate a boxed value tagged Integer, Character or Byte, with payload
  \<open>v\<close> (any 64-bit \<^verbatim>\<open>long\<close>).  Then \<^verbatim>\<open>wycc__toUnsignedByte\<close> returns if and only if
  \<open>0 \<le> v \<le> 255\<close>; when it returns, the handle returned designates a Byte-tagged value
  with payload \<open>v\<close>; when \<open>v\<close> is outside the range, the process ends with
  \<^verbatim>\<open>exit(-4)\<close>, the status of a violated precondition.
\<close>

theorem toUnsignedByte_range:
  assumes "obj_at s itm"
    and "typ_tag (deref s itm) \<in> {Wy_Int, Wy_Char, Wy_Byte}"
    and "ptr (deref s itm) = v"
  shows "((\<exists>q. fst (wycc__toUnsignedByte itm s) = Inr q) \<longleftrightarrow> 0 \<le> sint v \<and> sint v \<le> 255)
    \<and> (0 \<le> sint v \<and> sint v \<le> 255 \<longrightarrow>
         (\<exists>q s'. wycc__toUnsignedByte itm s = (Inr q, s') \<and> obj_at s' q
            \<and> deref s' q = \<lparr>typ_tag = Wy_Byte, ptr = v\<rparr>))
    \<and> (\<not> (0 \<le> sint v \<and> sint v \<le> 255) \<longrightarrow>
         fst (wycc__toUnsignedByte itm s) = Inl (Exit (- 4)))"
proof (cases "0 \<le> sint v \<and> sint v \<le> 255")
  case True
  with assms have "wycc__toUnsignedByte itm s = box_new Wy_Byte v s"
    using toUnsignedByte_in_range [of s itm] by simp
  with True show ?thesis
    by (simp add: box_new_fresh deref_new obj_at_new)
next
  case False
  with assms have "wycc__toUnsignedByte itm s =
      exit_with (- 4) (fprintf_stderr (''precondition not satisfied'' @ [newline]) s)"
    using toUnsignedByte_out_of_range [of s itm] by simp
  with False show ?thesis
    by (simp add: exit_with_def)
qed

theorem toUnsignedByte_range_witness:
  "obj_at scenario 1 \<and> typ_tag (deref scenario 1) = Wy_Int \<and> ptr (deref scenario 1) = 42
   \<and> (\<exists>q s'. wycc__toUnsignedByte 1 scenario = (Inr q, s') \<and> obj_at s' q
         \<and> deref s' q = \<lparr>typ_tag = Wy_Byte, ptr = 42\<rparr>)
   \<and> obj_at scenario 2 \<and> typ_tag (deref scenario 2) = Wy_Int \<and> ptr (deref scenario 2) = 300
   \<and> fst (wycc__toUnsignedByte 2 scenario) = Inl (Exit (- 4))
   \<and> obj_at scenario 5 \<and> typ_tag (deref scenario 5) = Wy_Int \<and> ptr (deref scenario 5) = - 5
   \<and> fst (wycc__toUnsignedByte 5 scenario) = Inl (Exit (- 4))"
  using toUnsignedByte_range [of scenario 1 42] toUnsignedByte_range [of scenario 2 300]
    toUnsignedByte_range [of scenario 5 "- 5"] scenario_objects
  by simp

text \<open>
  C2.  Let \<open>itm\<close> designate a boxed value tagged Integer, Character or Byte, with payload
  \<open>v\<close> (any 64-bit \<^verbatim>\<open>long\<close>, negative ones included).  Then \<^verbatim>\<open>wycc__toUnsignedInt\<close>
  returns, the handle returned designates an Integer-tagged value whose payload is \<open>v\<close>,
  and nothing is written to the diagnostic stream: no range check is applied.
\<close>

theorem toUnsignedInt_passes_through:
  assumes "obj_at s itm"
    and "typ_tag (deref s itm) \<in> {Wy_Int, Wy_Char, Wy_Byte}"
    and "ptr (deref s itm) = v"
  shows "\<exists>q s'. wycc__toUnsignedInt itm s = (Inr q, s') \<and> obj_at s' q
           \<and> typ_tag (deref s' q) = Wy_Int \<and> ptr (deref s' q) = v
           \<and> sint (ptr (deref s' q)) = sint v \<and> stderr s' = stderr s"
  using assms toUnsignedInt_supported [of s itm]
  by (simp add: box_new_fresh deref_new obj_at_new)

theorem toUnsignedInt_passes_through_witness:
  "obj_at scenario 5 \<and> typ_tag (deref scenario 5) = Wy_Int \<and> ptr (deref scenario 5) = - 5
   \<and> (\<exists>q s'. wycc__toUnsignedInt 5 scenario = (Inr q, s') \<and> obj_at s' q
         \<and> typ_tag (deref s' q) = Wy_Int \<and> ptr (deref s' q) = - 5
         \<and> sint (ptr (deref s' q)) = - 5 \<and> stderr s' = stderr scenario)
   \<and> obj_at scenario 3 \<and> typ_tag (deref scenario 3) = Wy_Byte \<and> ptr (deref scenario 3) = 7
   \<and> (\<exists>q s'. wycc__toUnsignedInt 3 scenario = (Inr q, s') \<and> obj_at s' q
         \<and> typ_tag (deref s' q) = Wy_Int \<and> ptr (deref s' q) = 7
         \<and> sint (ptr (deref s' q)) = 7 \<and> stderr s' = stderr scenario)"
  using toUnsignedInt_passes_through [of scenario 5 "- 5"]
    toUnsignedInt_passes_through [of scenario 3 7] scenario_objects
  by simp

text \<open>
  C3.  Let \<open>itm\<close> designate a boxed value whose tag is none of Integer, Character, Byte.
  Then both \<^verbatim>\<open>wycc__toUnsignedByte\<close> and \<^verbatim>\<open>wycc__toUnsignedInt\<close> report the panic
  and end the process with \<^verbatim>\<open>exit(-3)\<close>, the status of an unsupported type; neither
  returns a value.
\<close>

theorem unsupported_type_exits:
  assumes "obj_at s itm"
    and "typ_tag (deref s itm) \<notin> {Wy_Int, Wy_Char, Wy_Byte}"
  shows "wycc__toUnsignedByte itm s =
           (Inl (Exit (- 3)),
            s\<lparr>stderr := stderr s @
               [Panic (''Help needed in wycc__toUnsignedByte for type %d'' @ [newline])
                  (typ_tag (deref s itm))]\<rparr>)
       \<and> wycc__toUnsignedInt itm s =
           (Inl (Exit (- 3)),
            s\<lparr>stderr := stderr s @
               [Panic (''Help needed in wycc__toUnsignedByte for type %d'' @ [newline])
                  (typ_tag (deref s itm))]\<rparr>)
       \<and> (\<forall>q. fst (wycc__toUnsignedByte itm s) \<noteq> Inr q)
       \<and> (\<forall>q. fst (wycc__toUnsignedInt itm s) \<noteq> Inr q)"
  using assms toUnsignedByte_unsupported [of s itm] toUnsignedInt_unsupported [of s itm]
  by (simp add: exit_with_def WY_PANIC_def)

theorem unsupported_type_exits_witness:
  "obj_at scenario 4 \<and> typ_tag (deref scenario 4) = Wy_Other 0
   \<and> fst (wycc__toUnsignedByte 4 scenario) = Inl (Exit (- 3))
   \<and> fst (wycc__toUnsignedInt 4 scenario) = Inl (Exit (- 3))
   \<and> stderr (snd (wycc__toUnsignedByte 4 scenario)) =
       [Panic (''Help needed in wycc__toUnsignedByte for type %d'' @ [newline]) (Wy_Other 0)]"
  using unsupported_type_exits [of scenario 4] scenario_objects
  by (simp add: scenario_def process_start_def)

subsection \<open>Every outcome of the routines\<close>

lemma toUnsignedByte_cases:
  "wycc__toUnsignedByte itm s =
     (if \<not> obj_at s itm
      then (Inl Insane, s\<lparr>stderr := stderr s @ [Insane_object ''wycc__toUnsignedByte'']\<rparr>)
      else if typ_tag (deref s itm) \<notin> {Wy_Int, Wy_Char, Wy_Byte}
      then (Inl (Exit (- 3)),
            s\<lparr>stderr := stderr s @
               [Panic (''Help needed in wycc__toUnsignedByte for type %d'' @ [newline])
                  (typ_tag (deref s itm))]\<rparr>)
      else if \<not> (0 \<le> sint (ptr (deref s itm)) \<and> sint (ptr (deref s itm)) \<le> 255)
      then (Inl (Exit (- 4)),
            s\<lparr>stderr := stderr s @ [Fprintf (''precondition not satisfied'' @ [newline])]\<rparr>)
      else (Inr (Suc (length (heap s))),
            s\<lparr>heap := heap s @ [\<lparr>typ_tag = Wy_Byte, ptr = ptr (deref s itm)\<rparr>]\<rparr>))"
proof -
  consider "\<not> obj_at s itm"
    | "obj_at s itm" "typ_tag (deref s itm) \<notin> {Wy_Int, Wy_Char, Wy_Byte}"
    | "obj_at s itm" "typ_tag (deref s itm) \<in> {Wy_Int, Wy_Char, Wy_Byte}"
      "\<not> (0 \<le> sint (ptr (deref s itm)) \<and> sint (ptr (deref s itm)) \<le> 255)"
    | "obj_at s itm" "typ_tag (deref s itm) \<in> {Wy_Int, Wy_Char, Wy_Byte}"
      "0 \<le> sint (ptr (deref s itm))" "sint (ptr (deref s itm)) \<le> 255"
    by blast
  then show ?thesis
  proof cases
    case 1
    then show ?thesis by (simp add: toUnsignedByte_insane)
  next
    case 2
    then show ?thesis
      using toUnsignedByte_unsupported [of s itm] by (simp add: exit_with_def WY_PANIC_def)
  next
    case 3
    then show ?thesis
      using toUnsignedByte_out_of_range [of s itm]
      by (simp add: exit_with_def fprintf_stderr_def)
  next
    case 4
    then show ?thesis
      using toUnsignedByte_in_range [of s itm] by (simp add: box_new_fresh)
  qed
qed

lemma toUnsignedInt_cases:
  "wycc__toUnsignedInt itm s =
     (if \<not> obj_at s itm
      then (Inl Insane, s\<lparr>stderr := stderr s @ [Insane_object ''wycc__toUnsignedInt'']\<rparr>)
      else if typ_tag (deref s itm) \<notin> {Wy_Int, Wy_Char, Wy_Byte}
      then (Inl (Exit (- 3)),
            s\<lparr>stderr := stderr s @
               [Panic (''Help needed in wycc__toUnsignedByte for type %d'' @ [newline])
                  (typ_tag (deref s itm))]\<rparr>)
      else (Inr (Suc (length (heap s))),
            s\<lparr>heap := heap s @ [\<lparr>typ_tag = Wy_Int, ptr = ptr (deref s itm)\<rparr>]\<rparr>))"
proof -
  consider "\<not> obj_at s itm"
    | "obj_at s itm" "typ_tag (deref s itm) \<notin> {Wy_Int, Wy_Char, Wy_Byte}"
    | "obj_at s itm" "typ_tag (deref s itm) \<in> {Wy_Int, Wy_Char, Wy_Byte}"
    by blast
  then show ?thesis
  proof cases
    case 1
    then show ?thesis by (simp add: toUnsignedInt_insane)
  next
    case 2
    then show ?thesis
      using toUnsignedInt_unsupported [of s itm] by (simp add: exit_with_def WY_PANIC_def)
  next
    case 3
    then show ?thesis
      using toUnsignedInt_supported [of s itm] by (simp add: box_new_fresh)
  qed
qed

lemma wait_status_values: "wait_status (- 3) = 253" "wait_status (- 4) = 252"
  by (simp_all add: wait_status_def)

text \<open>
  C4.  The sanity check is the first action of both routines, before any read of the tag
  or of the payload.  A read through a handle that is null or designates no object
  faults, and so does every body that starts with such a read, whatever follows it; the
  two routines never fault: on such a handle they end exactly as the check does, with
  the abort of the check, and the only diagnostic written is that of the check, with the
  routine's own name as its label.  Whenever the check fails, its failure alone is the
  outcome of the routine.
\<close>

theorem sanity_check_first:
  "(fst (WY_OBJ_SANE itm ''wycc__toUnsignedByte'' s) = Inl f \<longrightarrow>
      wycc__toUnsignedByte itm s = (Inl f, snd (WY_OBJ_SANE itm ''wycc__toUnsignedByte'' s)))
   \<and> (fst (WY_OBJ_SANE itm ''wycc__toUnsignedInt'' s) = Inl f \<longrightarrow>
      wycc__toUnsignedInt itm s = (Inl f, snd (WY_OBJ_SANE itm ''wycc__toUnsignedInt'' s)))
   \<and> (itm = NULL \<or> \<not> obj_at s itm \<longrightarrow>
        wycc__toUnsignedByte itm s =
          (Inl Insane, s\<lparr>stderr := stderr s @ [Insane_object ''wycc__toUnsignedByte'']\<rparr>)
      \<and> wycc__toUnsignedInt itm s =
          (Inl Insane, s\<lparr>stderr := stderr s @ [Insane_object ''wycc__toUnsignedInt'']\<rparr>)
      \<and> (\<forall>k :: wy_type \<Rightarrow> runtime \<Rightarrow> handle result.
            then_do (read_typ itm s) k = (Inl Segfault, s))
      \<and> (\<forall>k :: 64 word \<Rightarrow> runtime \<Rightarrow> handle result.
            then_do (read_ptr itm s) k = (Inl Segfault, s)))
   \<and> fst (wycc__toUnsignedByte itm s) \<noteq> Inl Segfault
   \<and> fst (wycc__toUnsignedInt itm s) \<noteq> Inl Segfault"
proof -
  have fails: "fst (WY_OBJ_SANE itm l s) = Inl f \<Longrightarrow> \<not> obj_at s itm \<and> f = Insane" for l
    by (auto simp: WY_OBJ_SANE_def obj_at_def split: if_splits)
  have null: "itm = NULL \<Longrightarrow> \<not> obj_at s itm"
    by (simp add: obj_at_def)
  have propagate:
    "fst (WY_OBJ_SANE itm ''wycc__toUnsignedByte'' s) = Inl f \<longrightarrow>
       wycc__toUnsignedByte itm s = (Inl f, snd (WY_OBJ_SANE itm ''wycc__toUnsignedByte'' s))"
    "fst (WY_OBJ_SANE itm ''wycc__toUnsignedInt'' s) = Inl f \<longrightarrow>
       wycc__toUnsignedInt itm s = (Inl f, snd (WY_OBJ_SANE itm ''wycc__toUnsignedInt'' s))"
    using fails by (auto simp: toUnsignedByte_insane toUnsignedInt_insane WY_OBJ_SANE_fail)
  have insane: "itm = NULL \<or> \<not> obj_at s itm \<longrightarrow>
        wycc__toUnsignedByte itm s =
          (Inl Insane, s\<lparr>stderr := stderr s @ [Insane_object ''wycc__toUnsignedByte'']\<rparr>)
      \<and> wycc__toUnsignedInt itm s =
          (Inl Insane, s\<lparr>stderr := stderr s @ [Insane_object ''wycc__toUnsignedInt'']\<rparr>)
      \<and> (\<forall>k :: wy_type \<Rightarrow> runtime \<Rightarrow> handle result.
            then_do (read_typ itm s) k = (Inl Segfault, s))
      \<and> (\<forall>k :: 64 word \<Rightarrow> runtime \<Rightarrow> handle result.
            then_do (read_ptr itm s) k = (Inl Segfault, s))"
    using null
    by (auto simp: toUnsignedByte_insane toUnsignedInt_insane read_faults then_do_simps)
  have no_fault:
    "fst (wycc__toUnsignedByte itm s) \<noteq> Inl Segfault"
    "fst (wycc__toUnsignedInt itm s) \<noteq> Inl Segfault"
    by (simp_all add: toUnsignedByte_cases toUnsignedInt_cases)
  show ?thesis
    using propagate insane no_fault by blast
qed

theorem sanity_check_first_witness:
  "wycc__toUnsignedByte NULL scenario =
     (Inl Insane, scenario\<lparr>stderr := [Insane_object ''wycc__toUnsignedByte'']\<rparr>)
   \<and> wycc__toUnsignedInt NULL scenario =
     (Inl Insane, scenario\<lparr>stderr := [Insane_object ''wycc__toUnsignedInt'']\<rparr>)
   \<and> then_do (read_typ NULL scenario) (\<lambda>t. wycc_box_byte 0) = (Inl Segfault, scenario)
   \<and> \<not> obj_at scenario 6
   \<and> wycc__toUnsignedByte 6 scenario =
     (Inl Insane, scenario\<lparr>stderr := [Insane_object ''wycc__toUnsignedByte'']\<rparr>)
   \<and> wycc__toUnsignedInt 6 scenario =
     (Inl Insane, scenario\<lparr>stderr := [Insane_object ''wycc__toUnsignedInt'']\<rparr>)
   \<and> then_do (read_ptr 6 scenario) (\<lambda>v. wycc_box_long v) = (Inl Segfault, scenario)"
proof -
  have e: "stderr scenario = []"
    by (simp add: scenario_def process_start_def)
  have h0: "NULL = NULL \<or> \<not> obj_at scenario NULL" and h6: "6 = NULL \<or> \<not> obj_at scenario 6"
    using scenario_objects by simp_all
  note at_null = sanity_check_first [of NULL scenario Insane]
    and at_six = sanity_check_first [of 6 scenario Insane]
  from at_null h0 have
    "wycc__toUnsignedByte NULL scenario =
       (Inl Insane, scenario\<lparr>stderr := stderr scenario @ [Insane_object ''wycc__toUnsignedByte'']\<rparr>)"
    "wycc__toUnsignedInt NULL scenario =
       (Inl Insane, scenario\<lparr>stderr := stderr scenario @ [Insane_object ''wycc__toUnsignedInt'']\<rparr>)"
    "then_do (read_typ NULL scenario) (\<lambda>t. wycc_box_byte 0) = (Inl Segfault, scenario)"
    by blast+
  moreover from at_six h6 have
    "wycc__toUnsignedByte 6 scenario =
       (Inl Insane, scenario\<lparr>stderr := stderr scenario @ [Insane_object ''wycc__toUnsignedByte'']\<rparr>)"
    "wycc__toUnsignedInt 6 scenario =
       (Inl Insane, scenario\<lparr>stderr := stderr scenario @ [Insane_object ''wycc__toUnsignedInt'']\<rparr>)"
    "then_do (read_ptr 6 scenario) (\<lambda>v. wycc_box_long v) = (Inl Segfault, scenario)"
    by blast+
  ultimately show ?thesis
    using scenario_objects(6) by (simp add: e)
qed

text \<open>
  C5.  Every \<^verbatim>\<open>exit\<close> of a conversion routine has a non-zero argument, which stays
  non-zero in the eight bits a parent process reads.  The status is \<open>-3\<close> exactly for an
  unsupported tag and \<open>-4\<close> exactly for a payload outside the byte range, and the two
  differ, also in their low eight bits (253 and 252).  On a handle that passes the sanity
  check these exits are the only fatal ends of the routines.
\<close>

theorem fatal_exit_statuses:
  "(\<forall>st. fst (wycc__toUnsignedByte itm s) = Inl (Exit st) \<longrightarrow>
        st \<noteq> 0 \<and> wait_status st \<noteq> 0
      \<and> (st = - 3 \<longleftrightarrow> typ_tag (deref s itm) \<notin> {Wy_Int, Wy_Char, Wy_Byte})
      \<and> (st = - 4 \<longleftrightarrow> typ_tag (deref s itm) \<in> {Wy_Int, Wy_Char, Wy_Byte}
            \<and> \<not> (0 \<le> sint (ptr (deref s itm)) \<and> sint (ptr (deref s itm)) \<le> 255)))
   \<and> (\<forall>st. fst (wycc__toUnsignedInt itm s) = Inl (Exit st) \<longrightarrow>
        st \<noteq> 0 \<and> wait_status st \<noteq> 0 \<and> st = - 3
      \<and> typ_tag (deref s itm) \<notin> {Wy_Int, Wy_Char, Wy_Byte})
   \<and> (obj_at s itm \<longrightarrow>
        (\<forall>f. fst (wycc__toUnsignedByte itm s) = Inl f \<longrightarrow> f = Exit (- 3) \<or> f = Exit (- 4))
      \<and> (\<forall>f. fst (wycc__toUnsignedInt itm s) = Inl f \<longrightarrow> f = Exit (- 3)))
   \<and> wait_status (- 3) \<noteq> wait_status (- 4)"
  by (simp add: toUnsignedByte_cases toUnsignedInt_cases wait_status_values)

theorem fatal_exit_statuses_witness:
  "fst (wycc__toUnsignedByte 4 scenario) = Inl (Exit (- 3))
   \<and> fst (wycc__toUnsignedInt 4 scenario) = Inl (Exit (- 3))
   \<and> fst (wycc__toUnsignedByte 2 scenario) = Inl (Exit (- 4))
   \<and> wait_status (- 3) = 253 \<and> wait_status (- 4) = 252
   \<and> typ_tag (deref scenario 4) \<notin> {Wy_Int, Wy_Char, Wy_Byte}
   \<and> typ_tag (deref scenario 2) \<in> {Wy_Int, Wy_Char, Wy_Byte}
   \<and> obj_at scenario 4 \<and> obj_at scenario 2"
proof -
  have b4: "fst (wycc__toUnsignedByte 4 scenario) = Inl (Exit (- 3))"
    and i4: "fst (wycc__toUnsignedInt 4 scenario) = Inl (Exit (- 3))"
    and b2: "fst (wycc__toUnsignedByte 2 scenario) = Inl (Exit (- 4))"
    using scenario_objects by (simp_all add: toUnsignedByte_cases toUnsignedInt_cases)
  from fatal_exit_statuses [of 4 scenario] b4 i4
  have "typ_tag (deref scenario 4) \<notin> {Wy_Int, Wy_Char, Wy_Byte}" by blast
  moreover from fatal_exit_statuses [of 2 scenario] b2
  have "typ_tag (deref scenario 2) \<in> {Wy_Int, Wy_Char, Wy_Byte}" by blast
  ultimately show ?thesis
    using b4 i4 b2 scenario_objects by (simp add: wait_status_values)
qed

text \<open>
  C8.  When either routine returns, the handle returned is not null and designates a fresh
  object; the state after the call is the state before it with this one object added to
  the heap (diagnostics, registry and chain are as before); every object that existed
  before the call, the argument among them, is still there with the same fields.
\<close>

theorem success_frame:
  assumes "wycc__toUnsignedByte itm s = (Inr q, s') \<or> wycc__toUnsignedInt itm s = (Inr q, s')"
  shows "q \<noteq> NULL \<and> obj_at s' q \<and> \<not> obj_at s q
    \<and> (\<exists>obj. s' = s\<lparr>heap := heap s @ [obj]\<rparr>)
    \<and> obj_at s itm \<and> obj_at s' itm \<and> deref s' itm = deref s itm
    \<and> (\<forall>p. obj_at s p \<longrightarrow> obj_at s' p \<and> deref s' p = deref s p)"
proof -
  from assms obtain obj where
    s': "s' = s\<lparr>heap := heap s @ [obj]\<rparr>" and q: "q = Suc (length (heap s))"
    and itm: "obj_at s itm"
    by (auto simp: toUnsignedByte_cases toUnsignedInt_cases split: if_splits)
  have "q \<noteq> NULL" "\<not> obj_at s q"
    using q by (simp_all add: NULL_def obj_at_def)
  moreover have "obj_at s' q"
    using s' q by (simp add: obj_at_new)
  moreover have "\<forall>p. obj_at s p \<longrightarrow> obj_at s' p \<and> deref s' p = deref s p"
    using s' by (simp add: obj_at_extend deref_extend)
  ultimately show ?thesis
    using s' itm by blast
qed

theorem success_frame_witness:
  "wycc__toUnsignedByte 1 scenario =
     (Inr 6, scenario\<lparr>heap := heap scenario @ [\<lparr>typ_tag = Wy_Byte, ptr = 42\<rparr>]\<rparr>)
   \<and> (6::nat) \<noteq> NULL
   \<and> deref (scenario\<lparr>heap := heap scenario @ [\<lparr>typ_tag = Wy_Byte, ptr = 42\<rparr>]\<rparr>) 1
       = deref scenario 1
   \<and> wycc__toUnsignedInt 3 scenario =
     (Inr 6, scenario\<lparr>heap := heap scenario @ [\<lparr>typ_tag = Wy_Int, ptr = 7\<rparr>]\<rparr>)
   \<and> deref (scenario\<lparr>heap := heap scenario @ [\<lparr>typ_tag = Wy_Int, ptr = 7\<rparr>]\<rparr>) 3
       = deref scenario 3"
proof -
  have b: "wycc__toUnsignedByte 1 scenario =
     (Inr 6, scenario\<lparr>heap := heap scenario @ [\<lparr>typ_tag = Wy_Byte, ptr = 42\<rparr>]\<rparr>)"
    and i: "wycc__toUnsignedInt 3 scenario =
     (Inr 6, scenario\<lparr>heap := heap scenario @ [\<lparr>typ_tag = Wy_Int, ptr = 7\<rparr>]\<rparr>)"
    using scenario_objects by (simp_all add: toUnsignedByte_cases toUnsignedInt_cases)
  from success_frame [of 1 scenario 6, OF disjI1, OF b]
    success_frame [of 3 scenario 6, OF disjI2, OF i] b i
  show ?thesis by simp
qed

subsection \<open>The initializer chain and the registry\<close>

lemma initor_a_fields:
  "wycc_init_chain (initor_a m s) = Some m"
  "initors (initor_a m s) =
     (initors s)(m := (initors s m)\<lparr>nxt := wycc_init_chain s,
        functionr := Some (Initor_b m), functionq := Some (Initor_d m)\<rparr>)"
  "heap (initor_a m s) = heap s" "stderr (initor_a m s) = stderr s"
  "registry (initor_a m s) = registry s"
  by (simp_all add: initor_a_def set_initor_c_def Let_def)

lemma chain_from_cong:
  "chain_from I p ms \<Longrightarrow> (\<forall>m \<in> set ms. I' m = I m) \<Longrightarrow> chain_from I' p ms"
  by (induction ms arbitrary: p) auto

lemma initor_a_links:
  assumes "chain_from (initors s) (wycc_init_chain s) xs" and "m \<notin> set xs"
  shows "chain_from (initors (initor_a m s)) (wycc_init_chain (initor_a m s)) (m # xs)"
proof -
  have "\<forall>x \<in> set xs. initors (initor_a m s) x = initors s x"
    using assms(2) by (auto simp: initor_a_fields)
  with assms(1) have "chain_from (initors (initor_a m s)) (wycc_init_chain s) xs"
    by (rule chain_from_cong)
  then show ?thesis
    by (simp add: initor_a_fields)
qed

lemma load_units_chain:
  assumes "chain_from (initors s) (wycc_init_chain s) xs"
    and "distinct ms" and "set ms \<inter> set xs = {}"
  shows "chain_from (initors (load_units ms s)) (wycc_init_chain (load_units ms s)) (rev ms @ xs)"
  using assms
proof (induction ms arbitrary: s xs)
  case Nil
  then show ?case by simp
next
  case (Cons m ms)
  have "chain_from (initors (initor_a m s)) (wycc_init_chain (initor_a m s)) (m # xs)"
    using Cons.prems by (intro initor_a_links) auto
  moreover have "distinct ms" "set ms \<inter> set (m # xs) = {}"
    using Cons.prems by auto
  ultimately have "chain_from (initors (load_units ms (initor_a m s)))
      (wycc_init_chain (load_units ms (initor_a m s))) (rev ms @ m # xs)"
    by (rule Cons.IH)
  then show ?case by simp
qed

lemma load_units_other:
  "m \<notin> set ms \<Longrightarrow> initors (load_units ms s) m = initors s m"
  by (induction ms arbitrary: s) (auto simp: initor_a_fields)

lemma load_units_functionr:
  "distinct ms \<Longrightarrow> m \<in> set ms \<Longrightarrow>
     functionr (initors (load_units ms s) m) = Some (Initor_b m)"
proof (induction ms arbitrary: s)
  case Nil
  then show ?case by simp
next
  case (Cons a ms)
  show ?case
  proof (cases "m \<in> set ms")
    case True
    with Cons show ?thesis by simp
  next
    case False
    with Cons.prems have "m = a" by simp
    with False show ?thesis by (simp add: load_units_other initor_a_fields)
  qed
qed

lemma run_callback_frame:
  "chain_frame ext \<Longrightarrow> initors (run_callback ext cb s) = initors s"
  by (cases "(ext, cb, s)" rule: run_callback.cases)
    (auto simp: chain_frame_def toUnsignedByte_initor_b_def toUnsignedInt_initor_b_def
      toUnsignedByte_initor_d_def toUnsignedInt_initor_d_def wycc_register_routine_def)

lemma walk_register_chain:
  assumes "chain_frame ext"
    and "chain_from (initors s) p ms"
    and "\<forall>m \<in> set ms. functionr (initors s m) = Some (Initor_b m)"
  shows "walk_register ext p called s =
     Some (Inr (called @ map Initor_b ms, fold (\<lambda>m. run_callback ext (Initor_b m)) ms s))"
  using assms(2,3)
proof (induction ms arbitrary: p called s)
  case Nil
  then show ?case by (simp add: walk_register.simps)
next
  case (Cons m ms)
  let ?s = "run_callback ext (Initor_b m) s"
  have I: "initors ?s = initors s"
    using assms(1) by (rule run_callback_frame)
  have p: "p = Some m" and f: "functionr (initors s m) = Some (Initor_b m)"
    using Cons.prems by simp_all
  have "walk_register ext (nxt (initors ?s m)) (called @ [Initor_b m]) ?s =
      Some (Inr ((called @ [Initor_b m]) @ map Initor_b ms, fold (\<lambda>m. run_callback ext (Initor_b m)) ms ?s))"
    using Cons.prems by (intro Cons.IH) (simp_all add: I)
  then show ?case
    by (subst walk_register.simps) (simp add: p f)
qed


lemma startup_after_load:
  assumes "chain_frame ext" and "wycc_init_chain s = None" and "distinct ms"
  shows "startup ext (load_units ms s) =
     Some (Inr (map Initor_b (rev ms),
            fold (\<lambda>m. run_callback ext (Initor_b m)) (rev ms) (load_units ms s)))"
proof -
  have "chain_from (initors s) (wycc_init_chain s) []"
    using assms(2) by simp
  then have "chain_from (initors (load_units ms s)) (wycc_init_chain (load_units ms s))
      (rev ms @ [])"
    using assms(3) by (rule load_units_chain) simp
  moreover have "\<forall>m \<in> set (rev ms). functionr (initors (load_units ms s) m) = Some (Initor_b m)"
    using assms(3) by (simp add: load_units_functionr)
  ultimately show ?thesis
    using walk_register_chain [OF assms(1), of "load_units ms s" _ "rev ms" "[]"]
    by (simp add: startup_def)
qed

text \<open>
  A constructor that ran twice would leave the record pointing at itself, and the walk
  would never return: the chain relies on each unit being linked once.
\<close>

lemma walk_register_self_loop:
  assumes "walk_register ext p called s = Some r"
  shows "chain_frame ext \<longrightarrow>
     \<not> (p = Some m \<and> nxt (initors s m) = Some m \<and> functionr (initors s m) \<noteq> None)"
  using assms
proof (induction rule: walk_register.raw_induct [rotated, consumes 1, case_names step])
  case (step walk ext p called s r)
  show ?case
  proof (intro impI notI)
    assume frame: "chain_frame ext"
      and c: "p = Some m \<and> nxt (initors s m) = Some m \<and> functionr (initors s m) \<noteq> None"
    then obtain cb where cb: "functionr (initors s m) = Some cb" by auto
    let ?s = "run_callback ext cb s"
    have I: "initors ?s = initors s"
      using frame by (rule run_callback_frame)
    from step(2) c cb I have "walk ext (Some m) (called @ [cb]) ?s = Some r"
      by simp
    from step(1) [OF this] frame c I show False
      by simp
  qed
qed

lemma startup_loaded_twice:
  assumes "chain_frame ext"
  shows "startup ext (initor_a m (initor_a m s)) = None"
proof (cases "startup ext (initor_a m (initor_a m s))")
  case None
  then show ?thesis .
next
  case (Some r)
  then have "walk_register ext (Some m) [] (initor_a m (initor_a m s)) = Some r"
    by (simp add: startup_def initor_a_fields)
  from walk_register_self_loop [OF this, of m] assms show ?thesis
    by (simp add: initor_a_fields)
qed

lemma register_Byte_entry:
  "registry (toUnsignedByte_initor_b s) (''toUnsignedByte'', ''[^d,v,i]'')
     = Some Addr_wycc__toUnsignedByte"
  by (simp add: toUnsignedByte_initor_b_def wycc_register_routine_def)

lemma register_Int_entry:
  "registry (toUnsignedInt_initor_b s) (''toUnsignedInt'', ''[^i,v,d]'')
     = Some Addr_wycc__toUnsignedInt"
  by (simp add: toUnsignedInt_initor_b_def wycc_register_routine_def)

lemma other_keeps_Byte_entry:
  "keeps_entry ext (''toUnsignedByte'', ''[^d,v,i]'') \<Longrightarrow> m \<noteq> ToUnsignedByte \<Longrightarrow>
     registry (run_callback ext (Initor_b m) s) (''toUnsignedByte'', ''[^d,v,i]'')
       = registry s (''toUnsignedByte'', ''[^d,v,i]'')"
  by (cases m) (simp_all add: keeps_entry_def toUnsignedInt_initor_b_def wycc_register_routine_def)

lemma other_keeps_Int_entry:
  "keeps_entry ext (''toUnsignedInt'', ''[^i,v,d]'') \<Longrightarrow> m \<noteq> ToUnsignedInt \<Longrightarrow>
     registry (run_callback ext (Initor_b m) s) (''toUnsignedInt'', ''[^i,v,d]'')
       = registry s (''toUnsignedInt'', ''[^i,v,d]'')"
  by (cases m) (simp_all add: keeps_entry_def toUnsignedByte_initor_b_def wycc_register_routine_def)

lemma pass_keeps_Byte_entry:
  "keeps_entry ext (''toUnsignedByte'', ''[^d,v,i]'') \<Longrightarrow> ToUnsignedByte \<notin> set ms \<Longrightarrow>
     registry (fold (\<lambda>m. run_callback ext (Initor_b m)) ms s) (''toUnsignedByte'', ''[^d,v,i]'')
       = registry s (''toUnsignedByte'', ''[^d,v,i]'')"
proof (induction ms arbitrary: s)
  case Nil
  then show ?case by simp
next
  case (Cons m ms)
  then have "m \<noteq> ToUnsignedByte" "ToUnsignedByte \<notin> set ms" by auto
  with Cons show ?case by (simp add: other_keeps_Byte_entry)
qed

lemma pass_keeps_Int_entry:
  "keeps_entry ext (''toUnsignedInt'', ''[^i,v,d]'') \<Longrightarrow> ToUnsignedInt \<notin> set ms \<Longrightarrow>
     registry (fold (\<lambda>m. run_callback ext (Initor_b m)) ms s) (''toUnsignedInt'', ''[^i,v,d]'')
       = registry s (''toUnsignedInt'', ''[^i,v,d]'')"
proof (induction ms arbitrary: s)
  case Nil
  then show ?case by simp
next
  case (Cons m ms)
  then have "m \<noteq> ToUnsignedInt" "ToUnsignedInt \<notin> set ms" by auto
  with Cons show ?case by (simp add: other_keeps_Int_entry)
qed

lemma pass_sets_Byte_entry:
  "keeps_entry ext (''toUnsignedByte'', ''[^d,v,i]'') \<Longrightarrow> ToUnsignedByte \<in> set ms \<Longrightarrow>
     registry (fold (\<lambda>m. run_callback ext (Initor_b m)) ms s) (''toUnsignedByte'', ''[^d,v,i]'')
       = Some Addr_wycc__toUnsignedByte"
proof (induction ms arbitrary: s)
  case Nil
  then show ?case by simp
next
  case (Cons m ms)
  show ?case
  proof (cases "ToUnsignedByte \<in> set ms")
    case True
    with Cons show ?thesis by simp
  next
    case False
    with Cons.prems have "m = ToUnsignedByte" by simp
    with False Cons.prems(1) show ?thesis
      by (simp add: pass_keeps_Byte_entry register_Byte_entry)
  qed
qed

lemma pass_sets_Int_entry:
  "keeps_entry ext (''toUnsignedInt'', ''[^i,v,d]'') \<Longrightarrow> ToUnsignedInt \<in> set ms \<Longrightarrow>
     registry (fold (\<lambda>m. run_callback ext (Initor_b m)) ms s) (''toUnsignedInt'', ''[^i,v,d]'')
       = Some Addr_wycc__toUnsignedInt"
proof (induction ms arbitrary: s)
  case Nil
  then show ?case by simp
next
  case (Cons m ms)
  show ?case
  proof (cases "ToUnsignedInt \<in> set ms")
    case True
    with Cons show ?thesis by simp
  next
    case False
    with Cons.prems have "m = ToUnsignedInt" by simp
    with False Cons.prems(1) show ?thesis
      by (simp add: pass_keeps_Int_entry register_Int_entry)
  qed
qed

lemma unregistered_not_found:
  "(n, sg) \<notin> set (map (\<lambda>(a, b, f). (a, b)) regs) \<Longrightarrow> registry s (n, sg) = None \<Longrightarrow>
     lookup_routine n sg (fold (\<lambda>(a, b, f). wycc_register_routine a b f) regs s) = None"
  by (induction regs arbitrary: s)
    (auto simp: lookup_routine_def wycc_register_routine_def)

subsection \<open>Properties of the chain and the registry\<close>

text \<open>
  C6.  The constructor of a unit stores the current head of the chain in the \<^verbatim>\<open>nxt\<close>
  field of the unit's record, stores the unit's two callbacks, makes the record the new
  head and touches no other record.  If the chain held the records \<open>xs\<close> and the unit is
  not yet among them, it holds the unit's record followed by \<open>xs\<close> afterwards: nothing is
  lost.  When three distinct units \<open>R1\<close>, \<open>R2\<close>, \<open>R3\<close> are loaded in this order into an
  empty chain, the chain is \<open>R3, R2, R1\<close>, and the startup walk returns after invoking the
  register callback of \<open>R3\<close>, then that of \<open>R2\<close>, then that of \<open>R1\<close>.
\<close>

theorem initializer_chain_order:
  "wycc_init_chain (initor_a m s) = Some m
   \<and> nxt (initors (initor_a m s) m) = wycc_init_chain s
   \<and> functionr (initors (initor_a m s) m) = Some (Initor_b m)
   \<and> functionq (initors (initor_a m s) m) = Some (Initor_d m)
   \<and> (\<forall>m'. m' \<noteq> m \<longrightarrow> initors (initor_a m s) m' = initors s m')
   \<and> (chain_from (initors s) (wycc_init_chain s) xs \<and> m \<notin> set xs \<longrightarrow>
        chain_from (initors (initor_a m s)) (wycc_init_chain (initor_a m s)) (m # xs))
   \<and> (chain_frame ext \<and> wycc_init_chain s = None \<and> distinct [R1, R2, R3] \<longrightarrow>
        chain_from (initors (load_units [R1, R2, R3] s))
          (wycc_init_chain (load_units [R1, R2, R3] s)) [R3, R2, R1]
      \<and> (\<exists>s'. startup ext (load_units [R1, R2, R3] s) =
            Some (Inr ([Initor_b R3, Initor_b R2, Initor_b R1], s'))))"
proof -
  have link: "chain_from (initors s) (wycc_init_chain s) xs \<and> m \<notin> set xs \<longrightarrow>
        chain_from (initors (initor_a m s)) (wycc_init_chain (initor_a m s)) (m # xs)"
    using initor_a_links [of s xs m] by blast
  have walk: "chain_frame ext \<and> wycc_init_chain s = None \<and> distinct [R1, R2, R3] \<longrightarrow>
        chain_from (initors (load_units [R1, R2, R3] s))
          (wycc_init_chain (load_units [R1, R2, R3] s)) [R3, R2, R1]
      \<and> (\<exists>s'. startup ext (load_units [R1, R2, R3] s) =
            Some (Inr ([Initor_b R3, Initor_b R2, Initor_b R1], s')))"
  proof (intro impI, elim conjE)
    assume a: "chain_frame ext" "wycc_init_chain s = None" "distinct [R1, R2, R3]"
    have "chain_from (initors s) (wycc_init_chain s) []"
      using a(2) by simp
    then have "chain_from (initors (load_units [R1, R2, R3] s))
        (wycc_init_chain (load_units [R1, R2, R3] s)) (rev [R1, R2, R3] @ [])"
      using a(3) by (rule load_units_chain) simp
    moreover have "\<exists>s'. startup ext (load_units [R1, R2, R3] s) =
        Some (Inr ([Initor_b R3, Initor_b R2, Initor_b R1], s'))"
      using startup_after_load [OF a] by simp
    ultimately show "chain_from (initors (load_units [R1, R2, R3] s))
          (wycc_init_chain (load_units [R1, R2, R3] s)) [R3, R2, R1]
      \<and> (\<exists>s'. startup ext (load_units [R1, R2, R3] s) =
            Some (Inr ([Initor_b R3, Initor_b R2, Initor_b R1], s')))"
      by simp
  qed
  show ?thesis
    using link walk by (simp add: initor_a_fields)
qed

theorem initializer_chain_order_witness:
  "chain_frame (\<lambda>cb t. t) \<and> wycc_init_chain process_start = None
   \<and> distinct [ToUnsignedByte, ToUnsignedInt, Sibling 0]
   \<and> chain_from (initors process_start) (wycc_init_chain process_start) []
   \<and> chain_from (initors (initor_a ToUnsignedByte process_start))
       (wycc_init_chain (initor_a ToUnsignedByte process_start)) [ToUnsignedByte]
   \<and> chain_from (initors (load_units [ToUnsignedByte, ToUnsignedInt, Sibling 0] process_start))
       (wycc_init_chain (load_units [ToUnsignedByte, ToUnsignedInt, Sibling 0] process_start))
       [Sibling 0, ToUnsignedInt, ToUnsignedByte]
   \<and> (\<exists>s'. startup (\<lambda>cb t. t)
          (load_units [ToUnsignedByte, ToUnsignedInt, Sibling 0] process_start) =
        Some (Inr ([Initor_b (Sibling 0), Initor_b ToUnsignedInt, Initor_b ToUnsignedByte], s')))"
proof -
  have h: "chain_frame (\<lambda>cb t. t)" "wycc_init_chain process_start = None"
    "distinct [ToUnsignedByte, ToUnsignedInt, Sibling 0]"
    "chain_from (initors process_start) (wycc_init_chain process_start) []"
    by (simp_all add: chain_frame_def process_start_def)
  from initializer_chain_order
    [of ToUnsignedByte process_start "[]" "\<lambda>cb t. t" ToUnsignedByte ToUnsignedInt "Sibling 0"] h
  show ?thesis by simp
qed

text \<open>
  C7.  Registering a routine under a name and a signature and looking the pair up gives
  that routine; registering leaves every other pair as it was; a pair that is not among
  the registrations made since the start of the process is not found.  After the units
  have been loaded (each once, \<^verbatim>\<open>wycc__toUnsignedByte.c\<close> and
  \<^verbatim>\<open>wycc__toUnsignedInt.c\<close> among them) and the startup walk has run the register
  callbacks, \<open>toUnsignedByte\<close> with \<open>[^d,v,i]\<close> resolves to \<^verbatim>\<open>wycc__toUnsignedByte\<close> and
  \<open>toUnsignedInt\<close> with \<open>[^i,v,d]\<close> to \<^verbatim>\<open>wycc__toUnsignedInt\<close>.
\<close>

theorem registry_lookup:
  "lookup_routine n sg (wycc_register_routine n sg fn s) = Some fn
   \<and> ((n', sg') \<noteq> (n, sg) \<longrightarrow>
        lookup_routine n' sg' (wycc_register_routine n sg fn s) = lookup_routine n' sg' s)
   \<and> ((n, sg) \<notin> set (map (\<lambda>(a, b, f). (a, b)) regs) \<longrightarrow>
        lookup_routine n sg
          (fold (\<lambda>(a, b, f). wycc_register_routine a b f) regs process_start) = None)
   \<and> (chain_frame ext \<and> keeps_entry ext (''toUnsignedByte'', ''[^d,v,i]'')
        \<and> keeps_entry ext (''toUnsignedInt'', ''[^i,v,d]'')
        \<and> wycc_init_chain s = None \<and> distinct ms
        \<and> ToUnsignedByte \<in> set ms \<and> ToUnsignedInt \<in> set ms \<longrightarrow>
        (\<exists>cbs s'. startup ext (load_units ms s) = Some (Inr (cbs, s'))
           \<and> lookup_routine ''toUnsignedByte'' ''[^d,v,i]'' s' = Some Addr_wycc__toUnsignedByte
           \<and> lookup_routine ''toUnsignedInt'' ''[^i,v,d]'' s' = Some Addr_wycc__toUnsignedInt))
   \<and> routine_code Addr_wycc__toUnsignedByte = Some wycc__toUnsignedByte
   \<and> routine_code Addr_wycc__toUnsignedInt = Some wycc__toUnsignedInt"
proof -
  have same: "lookup_routine n sg (wycc_register_routine n sg fn s) = Some fn"
    by (simp add: lookup_routine_def wycc_register_routine_def)
  have other: "(n', sg') \<noteq> (n, sg) \<longrightarrow>
        lookup_routine n' sg' (wycc_register_routine n sg fn s) = lookup_routine n' sg' s"
    by (simp add: lookup_routine_def wycc_register_routine_def)
  have absent: "(n, sg) \<notin> set (map (\<lambda>(a, b, f). (a, b)) regs) \<longrightarrow>
        lookup_routine n sg
          (fold (\<lambda>(a, b, f). wycc_register_routine a b f) regs process_start) = None"
    using unregistered_not_found [of n sg regs process_start]
    by (simp add: process_start_def)
  have resolved: "chain_frame ext \<and> keeps_entry ext (''toUnsignedByte'', ''[^d,v,i]'')
        \<and> keeps_entry ext (''toUnsignedInt'', ''[^i,v,d]'')
        \<and> wycc_init_chain s = None \<and> distinct ms
        \<and> ToUnsignedByte \<in> set ms \<and> ToUnsignedInt \<in> set ms \<longrightarrow>
        (\<exists>cbs s'. startup ext (load_units ms s) = Some (Inr (cbs, s'))
           \<and> lookup_routine ''toUnsignedByte'' ''[^d,v,i]'' s' = Some Addr_wycc__toUnsignedByte
           \<and> lookup_routine ''toUnsignedInt'' ''[^i,v,d]'' s' = Some Addr_wycc__toUnsignedInt)"
  proof (intro impI, elim conjE)
    assume a: "chain_frame ext" "wycc_init_chain s = None" "distinct ms"
      and kb: "keeps_entry ext (''toUnsignedByte'', ''[^d,v,i]'')"
      and ki: "keeps_entry ext (''toUnsignedInt'', ''[^i,v,d]'')"
      and b: "ToUnsignedByte \<in> set ms" and i: "ToUnsignedInt \<in> set ms"
    let ?s' = "fold (\<lambda>m. run_callback ext (Initor_b m)) (rev ms) (load_units ms s)"
    have "startup ext (load_units ms s) = Some (Inr (map Initor_b (rev ms), ?s'))"
      using a by (rule startup_after_load)
    moreover have "lookup_routine ''toUnsignedByte'' ''[^d,v,i]'' ?s' = Some Addr_wycc__toUnsignedByte"
      unfolding lookup_routine_def using kb b by (intro pass_sets_Byte_entry) simp_all
    moreover have "lookup_routine ''toUnsignedInt'' ''[^i,v,d]'' ?s' = Some Addr_wycc__toUnsignedInt"
      unfolding lookup_routine_def using ki i by (intro pass_sets_Int_entry) simp_all
    ultimately show "\<exists>cbs s'. startup ext (load_units ms s) = Some (Inr (cbs, s'))
           \<and> lookup_routine ''toUnsignedByte'' ''[^d,v,i]'' s' = Some Addr_wycc__toUnsignedByte
           \<and> lookup_routine ''toUnsignedInt'' ''[^i,v,d]'' s' = Some Addr_wycc__toUnsignedInt"
      by blast
  qed
  show ?thesis
    using same other absent resolved by simp
qed

theorem registry_lookup_witness:
  "chain_frame (\<lambda>cb t. t) \<and> keeps_entry (\<lambda>cb t. t) (''toUnsignedByte'', ''[^d,v,i]'')
   \<and> keeps_entry (\<lambda>cb t. t) (''toUnsignedInt'', ''[^i,v,d]'')
   \<and> wycc_init_chain process_start = None
   \<and> distinct [ToUnsignedInt, Sibling 3, ToUnsignedByte]
   \<and> (\<exists>cbs s'. startup (\<lambda>cb t. t) (load_units [ToUnsignedInt, Sibling 3, ToUnsignedByte] process_start)
          = Some (Inr (cbs, s'))
        \<and> lookup_routine ''toUnsignedByte'' ''[^d,v,i]'' s' = Some Addr_wycc__toUnsignedByte
        \<and> lookup_routine ''toUnsignedInt'' ''[^i,v,d]'' s' = Some Addr_wycc__toUnsignedInt)
   \<and> lookup_routine ''toUnsignedByte'' ''[^d,v,i]''
        (wycc_register_routine ''toUnsignedByte'' ''[^d,v,i]'' Addr_wycc__toUnsignedByte process_start)
        = Some Addr_wycc__toUnsignedByte
   \<and> (''toUnsignedByte'', ''[^i,v,d]'') \<noteq> (''toUnsignedByte'', ''[^d,v,i]'')
   \<and> lookup_routine ''toUnsignedByte'' ''[^i,v,d]''
        (wycc_register_routine ''toUnsignedByte'' ''[^d,v,i]'' Addr_wycc__toUnsignedByte process_start)
        = lookup_routine ''toUnsignedByte'' ''[^i,v,d]'' process_start
   \<and> lookup_routine ''toUnsignedByte'' ''[^i,v,d]''
        (fold (\<lambda>(a, b, f). wycc_register_routine a b f)
           [(''toUnsignedByte'', ''[^d,v,i]'', Addr_wycc__toUnsignedByte),
            (''toUnsignedInt'', ''[^i,v,d]'', Addr_wycc__toUnsignedInt)] process_start) = None"
proof -
  have h: "chain_frame (\<lambda>cb t. t)" "keeps_entry (\<lambda>cb t. t) (''toUnsignedByte'', ''[^d,v,i]'')"
    "keeps_entry (\<lambda>cb t. t) (''toUnsignedInt'', ''[^i,v,d]'')"
    "wycc_init_chain process_start = None"
    by (simp_all add: chain_frame_def keeps_entry_def process_start_def)
  from registry_lookup [of "''toUnsignedByte''" "''[^d,v,i]''" Addr_wycc__toUnsignedByte
      process_start "''toUnsignedByte''" "''[^i,v,d]''"
      "[]" "\<lambda>cb t. t" "[ToUnsignedInt, Sibling 3, ToUnsignedByte]"]
    registry_lookup [of "''toUnsignedByte''" "''[^i,v,d]''" Addr_wycc__toUnsignedByte
      process_start "''toUnsignedByte''" "''[^i,v,d]''"
      "[(''toUnsignedByte'', ''[^d,v,i]'', Addr_wycc__toUnsignedByte),
        (''toUnsignedInt'', ''[^i,v,d]'', Addr_wycc__toUnsignedInt)]"
      "\<lambda>cb t. t" "[ToUnsignedInt, Sibling 3, ToUnsignedByte]"] h
  show ?thesis by simp
qed

end
